theory Spec2Isabelle
  imports Complex_Main
begin

section \<open>The Surya OCR adapter of docling\_surya\<close>

text \<open>
  A shallow embedding of \<^verbatim>\<open>src/docling_surya/plugin.py\<close>: the options schema, the
  constructor of \<^verbatim>\<open>SuryaOcrModel\<close>, its generator \<^verbatim>\<open>__call__\<close> and the plugin
  factory. Coordinates and confidences are Python floats; they are modelled as
  rationals, so \<^verbatim>\<open>/\<close> is exact division. The page stream is consumed to its end,
  so the lazy generator is a function from the list of input pages to the list of
  pages it yields, together with the exception that ends it, if any.
\<close>

subsection \<open>Exceptions and the module namespace\<close>

datatype py_exception =
    OSError
  | NameError string
  | AttributeError string
  | Raised string string

text \<open>
  The names bound at module level of \<^verbatim>\<open>plugin.py\<close>: its imports (lines 1 to 15),
  \<^verbatim>\<open>_log\<close>, the two classes and the factory function.
\<close>

definition module_globals :: "string list" where
  "module_globals =
     [''logging'', ''os'', ''Iterable'', ''Path'', ''ClassVar'', ''Literal'', ''Optional'',
      ''Type'', ''BoundingBox'', ''CoordOrigin'', ''BoundingRectangle'', ''TextCell'',
      ''AcceleratorOptions'', ''Page'', ''ConversionResult'', ''OcrOptions'', ''settings'',
      ''BaseOcrModel'', ''TimeRecorder'', ''_log'', ''SuryaOcrOptions'', ''SuryaOcrModel'',
      ''ocr_engines'']"

text \<open>
  \<^verbatim>\<open>raise Cls(msg)\<close> first evaluates the name \<^verbatim>\<open>Cls\<close>. A name that is neither a
  module global nor a Python builtin raises \<^verbatim>\<open>NameError\<close> before any exception
  object is built. The only class raised this way in the module is
  \<^verbatim>\<open>ImportOcrError\<close>, which is not a builtin.
\<close>

definition raise_named :: "string \<Rightarrow> string \<Rightarrow> py_exception" where
  "raise_named cls msg =
     (if cls \<in> set module_globals then Raised cls msg else NameError cls)"

subsection \<open>Data model\<close>

datatype coord_origin = TOPLEFT | BOTTOMLEFT

text \<open>
  \<^verbatim>\<open>BoundingBox\<close> of docling\_core, with its fields \<^verbatim>\<open>l\<close>, \<^verbatim>\<open>t\<close>, \<^verbatim>\<open>r\<close>,
  \<^verbatim>\<open>b\<close> and \<^verbatim>\<open>coord_origin\<close>.
\<close>

record bounding_box =
  box_l :: rat
  box_t :: rat
  box_r :: rat
  box_b :: rat
  coord_origin :: coord_origin

text \<open>
  Modelled from the spec: \<^verbatim>\<open>BoundingBox.area\<close> belongs to docling\_core and is not
  part of the repository. The spec's zero-area regions are those with left equal to
  right or top equal to bottom; the area is the product of the two side lengths.
\<close>

definition area :: "bounding_box \<Rightarrow> rat" where
  "area rect = \<bar>box_r rect - box_l rect\<bar> * \<bar>box_b rect - box_t rect\<bar>"

text \<open>
  Modelled from the spec: \<^verbatim>\<open>BoundingBox.from_tuple\<close> belongs to docling\_core and is
  not part of the repository. The spec reads the tuple as (left, top, right, bottom)
  of the page-space box.
\<close>

fun from_tuple :: "rat \<times> rat \<times> rat \<times> rat \<Rightarrow> coord_origin \<Rightarrow> bounding_box" where
  "from_tuple (x0, y0, x1, y1) origin =
     \<lparr>box_l = x0, box_t = y0, box_r = x1, box_b = y1, coord_origin = origin\<rparr>"

text \<open>
  A text line of a recognition result: \<^verbatim>\<open>tl.bbox\<close> (four numbers in the pixel
  space of the rendered crop), \<^verbatim>\<open>tl.text\<close> and \<^verbatim>\<open>tl.confidence\<close>; a prediction
  exposes \<^verbatim>\<open>text_lines\<close>.
\<close>

record text_line =
  bbox :: "rat \<times> rat \<times> rat \<times> rat"
  tl_text :: string
  tl_confidence :: rat

record prediction =
  text_lines :: "text_line list"

text \<open>
  \<^verbatim>\<open>TextCell\<close>. The field \<^verbatim>\<open>rect\<close> holds
  \<^verbatim>\<open>BoundingRectangle.from_bounding_box(box)\<close>, the rectangle with the corners of
  \<^verbatim>\<open>box\<close>; it is kept as that box.
\<close>

record text_cell =
  index :: nat
  cell_text :: string
  orig :: string
  confidence :: rat
  from_ocr :: bool
  cell_rect :: bounding_box

text \<open>
  The page source \<^verbatim>\<open>page._backend\<close> with \<^verbatim>\<open>is_valid()\<close> and
  \<^verbatim>\<open>get_page_image(scale, cropbox)\<close>, and the page itself. The type \<open>'img\<close> is
  the type of rendered images; \<open>parsed_cells\<close> stands for the text model of the page
  that the cell sink updates.
\<close>

record 'img page_backend =
  is_valid :: bool
  get_page_image :: "int \<Rightarrow> bounding_box \<Rightarrow> 'img"

record 'img page =
  page_no :: nat
  backend :: "'img page_backend option"
  parsed_cells :: "text_cell list"

text \<open>
  What the adapter does besides yielding pages: the image batches passed to the
  recognition predictor, the warnings logged, the pages for which the region selector
  was asked, and the pages drawn for debugging.
\<close>

record 'img trace =
  calls :: "'img list list"
  warnings :: "string list"
  selections :: "'img page list"
  drawn :: "'img page list"

text \<open>
  The collaborators inherited from \<^verbatim>\<open>BaseOcrModel\<close> and the global settings:
  \<^verbatim>\<open>get_ocr_rects\<close>, \<^verbatim>\<open>post_process_cells\<close> and
  \<^verbatim>\<open>settings.debug.visualize_ocr\<close>.
\<close>

record 'img host =
  get_ocr_rects :: "'img page \<Rightarrow> bounding_box list"
  post_process_cells :: "text_cell list \<Rightarrow> 'img page \<Rightarrow> 'img page"
  visualize_ocr :: bool

text \<open>
  The environment of the constructor: whether the model cache directory can be
  created, and the package \<^verbatim>\<open>surya\<close>. \<open>None\<close> means that \<^verbatim>\<open>surya\<close> cannot be
  imported; \<open>Some rp\<close> means that it can, and that
  \<^verbatim>\<open>RecognitionPredictor(foundation)\<close> called with the detection predictor
  behaves as \<open>rp\<close>.
\<close>

record 'img py_env =
  cache_dir_creatable :: bool
  surya :: "('img list \<Rightarrow> prediction list) option"

subsection \<open>Options and plugin factory\<close>

datatype options_type = SuryaOcrOptions

datatype model_class = SuryaOcrModel

fun kind :: "options_type \<Rightarrow> string" where
  "kind SuryaOcrOptions = ''suryaocr''"

fun get_options_type :: "model_class \<Rightarrow> options_type" where
  "get_options_type SuryaOcrModel = SuryaOcrOptions"

definition ocr_engines :: "(string \<times> model_class list) list" where
  "ocr_engines = [(''ocr_engines'', [SuryaOcrModel])]"

text \<open>
  The identifier used by \<^verbatim>\<open>src/examples/docling_with_custom_models.py\<close> and by the
  tests: \<^verbatim>\<open>PdfPipelineOptions(ocr_model="suryaocr")\<close>.
\<close>

definition example_ocr_model :: string where
  "example_ocr_model = ''suryaocr''"

text \<open>
  The host factory registers every class of the \<^verbatim>\<open>"ocr_engines"\<close> entry under
  \<^verbatim>\<open>cls.get_options_type().kind\<close>.
\<close>

definition registered_kinds :: "string list" where
  "registered_kinds =
     (case map_of ocr_engines ''ocr_engines'' of
        None \<Rightarrow> []
      | Some classes \<Rightarrow> map (\<lambda>cls. kind (get_options_type cls)) classes)"

subsection \<open>The constructor\<close>

record 'img surya_ocr_model =
  enabled :: bool
  scale :: int
  recognition_predictor :: "('img list \<Rightarrow> prediction list) option"

definition install_hint :: string where
  "install_hint =
     ''surya-ocr not installed. Install via `uv add surya-ocr` or `pip install surya-ocr`.''"

text \<open>
  \<^verbatim>\<open>SuryaOcrModel.__init__\<close>. The predictors are attributes of the object only when
  \<^verbatim>\<open>enabled\<close> is true. \<^verbatim>\<open>mkdir\<close> raises \<^verbatim>\<open>OSError\<close>, which the
  \<^verbatim>\<open>except ImportError\<close> clause does not catch.
\<close>

definition init :: "'img py_env \<Rightarrow> bool \<Rightarrow> py_exception + 'img surya_ocr_model" where
  "init env en =
     (if en then
        (if \<not> cache_dir_creatable env then Inl OSError
         else case surya env of
                None \<Rightarrow> Inl (raise_named ''ImportOcrError'' install_hint)
              | Some rp \<Rightarrow>
                  Inr \<lparr>enabled = en, scale = 3, recognition_predictor = Some rp\<rparr>)
      else Inr \<lparr>enabled = en, scale = 3, recognition_predictor = None\<rparr>)"

subsection \<open>The generator\<close>

text \<open>
  The two comprehensions of the loop body: \<^verbatim>\<open>result\<close> flattens the predictions
  into triples, \<^verbatim>\<open>cells\<close> builds one \<^verbatim>\<open>TextCell\<close> for each triple, numbered by
  \<^verbatim>\<open>enumerate(result)\<close>.
\<close>

definition flatten_result :: "prediction list \<Rightarrow> ((rat \<times> rat \<times> rat \<times> rat) \<times> string \<times> rat) list" where
  "flatten_result preds =
     concat (map (\<lambda>pred. map (\<lambda>tl. (bbox tl, tl_text tl, tl_confidence tl)) (text_lines pred))
                 preds)"

fun make_cell :: "int \<Rightarrow> bounding_box \<Rightarrow> nat \<times> ((rat \<times> rat \<times> rat \<times> rat) \<times> string \<times> rat) \<Rightarrow> text_cell" where
  "make_cell sc rect (i, ((b0, b1, b2, b3), txt, conf)) =
     \<lparr>index = i, cell_text = txt, orig = txt, confidence = conf, from_ocr = True,
      cell_rect =
        from_tuple ((b0 / of_int sc) + box_l rect,
                    (b1 / of_int sc) + box_t rect,
                    (b2 / of_int sc) + box_l rect,
                    (b3 / of_int sc) + box_t rect) TOPLEFT\<rparr>"

definition make_cells :: "int \<Rightarrow> bounding_box \<Rightarrow> ((rat \<times> rat \<times> rat \<times> rat) \<times> string \<times> rat) list \<Rightarrow> text_cell list" where
  "make_cells sc rect result = map (make_cell sc rect) (enumerate 0 result)"

definition empty_warning :: string where
  "empty_warning = ''SuryaOCR returned empty result!''"

text \<open>
  \<^verbatim>\<open>for rect in ocr_rects\<close>, with \<^verbatim>\<open>all_cells\<close> and the trace as loop state. An
  exception leaves the loop with the trace reached so far.
\<close>

fun ocr_rects_loop ::
  "'img surya_ocr_model \<Rightarrow> 'img page_backend \<Rightarrow> bounding_box list \<Rightarrow> text_cell list \<Rightarrow>
   'img trace \<Rightarrow> (py_exception + text_cell list) \<times> 'img trace" where
  "ocr_rects_loop self pb [] all_cells tr = (Inr all_cells, tr)"
| "ocr_rects_loop self pb (rect # rects) all_cells tr =
     (if area rect = 0 then ocr_rects_loop self pb rects all_cells tr
      else
        let img = get_page_image pb (scale self) rect in
        (case recognition_predictor self of
           None \<Rightarrow> (Inl (AttributeError ''recognition_predictor''), tr)
         | Some rp \<Rightarrow>
             (let preds = rp [img];
                  tr1 = tr\<lparr>calls := calls tr @ [[img]]\<rparr>
              in if preds = [] then
                   ocr_rects_loop self pb rects all_cells
                     (tr1\<lparr>warnings := warnings tr1 @ [empty_warning]\<rparr>)
                 else
                   (let result = flatten_result preds;
                        cells = make_cells (scale self) rect result
                    in ocr_rects_loop self pb rects (all_cells @ cells) tr1))))"

text \<open>
  What the generator has done when it ends: the pages yielded, in order, the
  exception that ended it (if any), and the trace.
\<close>

record 'img outcome =
  yielded :: "'img page list"
  raised :: "py_exception option"
  final :: "'img trace"

definition yield :: "'img page \<Rightarrow> 'img outcome \<Rightarrow> 'img outcome" where
  "yield p out = out\<lparr>yielded := p # yielded out\<rparr>"

text \<open>\<^verbatim>\<open>for page in page_batch\<close> of the enabled adapter.\<close>

fun pages_loop ::
  "'img surya_ocr_model \<Rightarrow> 'img host \<Rightarrow> 'img page list \<Rightarrow> 'img trace \<Rightarrow> 'img outcome" where
  "pages_loop self h [] tr = \<lparr>yielded = [], raised = None, final = tr\<rparr>"
| "pages_loop self h (pg # pages) tr =
     (case backend pg of
        None \<Rightarrow> yield pg (pages_loop self h pages tr)
      | Some pb \<Rightarrow>
          if \<not> is_valid pb then yield pg (pages_loop self h pages tr)
          else
            let ocr_rects = get_ocr_rects h pg;
                tr1 = tr\<lparr>selections := selections tr @ [pg]\<rparr>
            in (case ocr_rects_loop self pb ocr_rects [] tr1 of
                  (Inl e, tr2) \<Rightarrow> \<lparr>yielded = [], raised = Some e, final = tr2\<rparr>
                | (Inr all_cells, tr2) \<Rightarrow>
                    (let pg' = post_process_cells h all_cells pg;
                         tr3 = (if visualize_ocr h then tr2\<lparr>drawn := drawn tr2 @ [pg']\<rparr>
                                else tr2)
                     in yield pg' (pages_loop self h pages tr3))))"

text \<open>\<^verbatim>\<open>SuryaOcrModel.__call__\<close>.\<close>

definition call ::
  "'img surya_ocr_model \<Rightarrow> 'img host \<Rightarrow> 'img page list \<Rightarrow> 'img trace \<Rightarrow> 'img outcome" where
  "call self h page_batch tr =
     (if \<not> enabled self then \<lparr>yielded = page_batch, raised = None, final = tr\<rparr>
      else pages_loop self h page_batch tr)"

subsection \<open>What a page's region loop amounts to\<close>

text \<open>
  The regions for which the loop body runs past its first test, the image rendered
  for a region, and the triples obtained for it from a predictor \<open>rp\<close>.
\<close>

definition processed :: "bounding_box list \<Rightarrow> bounding_box list" where
  "processed rects = filter (\<lambda>rect. area rect \<noteq> 0) rects"

definition crop :: "'img surya_ocr_model \<Rightarrow> 'img page_backend \<Rightarrow> bounding_box \<Rightarrow> 'img" where
  "crop self pb rect = get_page_image pb (scale self) rect"

definition triples ::
  "'img surya_ocr_model \<Rightarrow> 'img page_backend \<Rightarrow> ('img list \<Rightarrow> prediction list) \<Rightarrow>
   bounding_box \<Rightarrow> ((rat \<times> rat \<times> rat \<times> rat) \<times> string \<times> rat) list" where
  "triples self pb rp rect = flatten_result (rp [crop self pb rect])"

definition cells_of ::
  "'img surya_ocr_model \<Rightarrow> 'img page_backend \<Rightarrow> ('img list \<Rightarrow> prediction list) \<Rightarrow>
   bounding_box list \<Rightarrow> text_cell list" where
  "cells_of self pb rp rects =
     concat (map (\<lambda>rect. make_cells (scale self) rect (triples self pb rp rect))
                 (processed rects))"

definition calls_of ::
  "'img surya_ocr_model \<Rightarrow> 'img page_backend \<Rightarrow> bounding_box list \<Rightarrow> 'img list list" where
  "calls_of self pb rects = map (\<lambda>rect. [crop self pb rect]) (processed rects)"

definition warnings_of ::
  "'img surya_ocr_model \<Rightarrow> 'img page_backend \<Rightarrow> ('img list \<Rightarrow> prediction list) \<Rightarrow>
   bounding_box list \<Rightarrow> string list" where
  "warnings_of self pb rp rects =
     concat (map (\<lambda>rect. if rp [crop self pb rect] = [] then [empty_warning] else [])
                 (processed rects))"

subsection \<open>Page bounds\<close>

text \<open>
  A box all of whose coordinates lie in a page of width \<open>W\<close> and height \<open>H\<close>, and a
  local box all of whose coordinates lie in the crop of a region rendered at scale
  \<open>sc\<close>, which is \<open>sc\<close> times as wide and as high as the region.
\<close>

definition within_page :: "rat \<Rightarrow> rat \<Rightarrow> bounding_box \<Rightarrow> bool" where
  "within_page W H bx \<longleftrightarrow>
     0 \<le> box_l bx \<and> box_l bx \<le> W \<and> 0 \<le> box_r bx \<and> box_r bx \<le> W \<and>
     0 \<le> box_t bx \<and> box_t bx \<le> H \<and> 0 \<le> box_b bx \<and> box_b bx \<le> H"

fun within_crop :: "int \<Rightarrow> bounding_box \<Rightarrow> rat \<times> rat \<times> rat \<times> rat \<Rightarrow> bool" where
  "within_crop sc rect (x0, y0, x1, y1) \<longleftrightarrow>
     0 \<le> x0 \<and> x0 \<le> of_int sc * (box_r rect - box_l rect) \<and>
     0 \<le> x1 \<and> x1 \<le> of_int sc * (box_r rect - box_l rect) \<and>
     0 \<le> y0 \<and> y0 \<le> of_int sc * (box_b rect - box_t rect) \<and>
     0 \<le> y1 \<and> y1 \<le> of_int sc * (box_b rect - box_t rect)"

subsection \<open>The mocks of the test suite and example inputs\<close>

text \<open>
  \<^verbatim>\<open>MockTextLine\<close>, \<^verbatim>\<open>MockResult\<close> and \<^verbatim>\<open>MockPredictor\<close> of
  \<^verbatim>\<open>src/tests/test_surya_ocr.py\<close>: one result with one text line for each image.
\<close>

definition MockTextLine :: text_line where
  "MockTextLine = \<lparr>bbox = (10, 20, 100, 40), tl_text = ''Hello from Surya'',
                   tl_confidence = 95 / 100\<rparr>"

definition MockResult :: prediction where
  "MockResult = \<lparr>text_lines = [MockTextLine]\<rparr>"

definition MockPredictor :: "'img list \<Rightarrow> prediction list" where
  "MockPredictor images = map (\<lambda>_. MockResult) images"

text \<open>
  Example inputs. An image is identified with the request that rendered it (scale and
  crop box). \<open>sample_predictor\<close> answers by the left edge of the crop: nothing for a
  crop at 0, one result without text lines for a crop at 20, and otherwise one line
  with the local box (30, 60, 90, 120).
\<close>

definition box :: "rat \<Rightarrow> rat \<Rightarrow> rat \<Rightarrow> rat \<Rightarrow> bounding_box" where
  "box x0 y0 x1 y1 =
     \<lparr>box_l = x0, box_t = y0, box_r = x1, box_b = y1, coord_origin = TOPLEFT\<rparr>"

definition sample_backend :: "(int \<times> bounding_box) page_backend" where
  "sample_backend = \<lparr>is_valid = True, get_page_image = Pair\<rparr>"

definition sample_line :: text_line where
  "sample_line = \<lparr>bbox = (30, 60, 90, 120), tl_text = ''line'', tl_confidence = 9 / 10\<rparr>"

definition sample_predictor :: "(int \<times> bounding_box) list \<Rightarrow> prediction list" where
  "sample_predictor images =
     (case images of
        [] \<Rightarrow> []
      | img # _ \<Rightarrow>
          if box_l (snd img) = 0 then []
          else if box_l (snd img) = 20 then [\<lparr>text_lines = []\<rparr>]
          else [\<lparr>text_lines = [sample_line]\<rparr>])"

definition sample_model ::
  "((int \<times> bounding_box) list \<Rightarrow> prediction list) \<Rightarrow> (int \<times> bounding_box) surya_ocr_model" where
  "sample_model rp = \<lparr>enabled = True, scale = 3, recognition_predictor = Some rp\<rparr>"

definition sample_env :: "(int \<times> bounding_box) py_env" where
  "sample_env = \<lparr>cache_dir_creatable = True, surya = Some sample_predictor\<rparr>"

definition no_trace :: "'img trace" where
  "no_trace = \<lparr>calls = [], warnings = [], selections = [], drawn = []\<rparr>"

definition sample_page :: "(int \<times> bounding_box) page_backend option \<Rightarrow> (int \<times> bounding_box) page" where
  "sample_page pb = \<lparr>page_no = 0, backend = pb, parsed_cells = []\<rparr>"

definition sample_host :: "(int \<times> bounding_box) host" where
  "sample_host =
     \<lparr>get_ocr_rects = (\<lambda>pg. [box 50 100 90 150, box 0 0 10 10, box 60 0 100 40]),
      post_process_cells = (\<lambda>cells pg. pg\<lparr>parsed_cells := cells\<rparr>),
      visualize_ocr = False\<rparr>"

section \<open>Properties\<close>

subsection \<open>The region loop in closed form\<close>

text \<open>
  When the predictor attribute exists, the loop over a page's regions raises nothing:
  it appends the cells of the processed regions, calls the predictor once for each of
  them, and warns once for each of them whose result is empty.
\<close>

lemma ocr_rects_loop_Some:
  assumes "recognition_predictor self = Some rp"
  shows "ocr_rects_loop self pb rects all_cells tr =
     (Inr (all_cells @ cells_of self pb rp rects),
      tr\<lparr>calls := calls tr @ calls_of self pb rects,
         warnings := warnings tr @ warnings_of self pb rp rects\<rparr>)"
  using assms
proof (induction rects arbitrary: all_cells tr)
  case Nil
  then show ?case by (simp add: cells_of_def calls_of_def warnings_of_def processed_def)
next
  case (Cons rect rects)
  then show ?case
    by (simp add: cells_of_def calls_of_def warnings_of_def processed_def crop_def triples_def
        Let_def flatten_result_def make_cells_def)
qed

lemma ocr_rects_loop_skip:
  assumes "area rect = 0"
  shows "ocr_rects_loop self pb (pre @ rect # post) all_cells tr =
         ocr_rects_loop self pb (pre @ post) all_cells tr"
  using assms
proof (induction pre arbitrary: all_cells tr)
  case Nil
  then show ?case by simp
next
  case (Cons a pre)
  then show ?case by (simp add: Let_def split: option.splits)
qed

lemma init_Inr:
  assumes "init env en = Inr self"
  shows "enabled self = en \<and> scale self = 3 \<and>
         (en \<longrightarrow> surya env \<noteq> None \<and> recognition_predictor self = surya env)"
  using assms by (auto simp: init_def split: if_splits option.splits)

lemma map_index_make_cells: "map index (make_cells sc rect result) = [0..<length result]"
proof -
  have "index (make_cell sc rect p) = fst p" for p
    by (cases "(sc, rect, p)" rule: make_cell.cases) auto
  then have "index \<circ> make_cell sc rect = fst"
    by (simp add: fun_eq_iff)
  then have "map index (make_cells sc rect result) = map fst (enumerate 0 result)"
    by (simp add: make_cells_def)
  then show ?thesis by simp
qed

lemma pages_loop_Some:
  assumes "recognition_predictor self = Some rp"
  shows "raised (pages_loop self h pages tr) = None \<and>
         length (yielded (pages_loop self h pages tr)) = length pages"
  using assms
proof (induction pages arbitrary: tr)
  case Nil
  then show ?case by simp
next
  case (Cons pg pages)
  then show ?case
    by (simp add: ocr_rects_loop_Some yield_def Let_def split: option.splits)
qed

subsection \<open>Plugin identity\<close>

text \<open>
  Claim C8. The kind declared by the options schema, the key under which the host
  registers the class returned by the factory (the kind of the options type given by
  \<^verbatim>\<open>get_options_type\<close>) and the identifier used by the example are the one string
  \<^verbatim>\<open>"suryaocr"\<close>.
\<close>

theorem plugin_identity:
  "registered_kinds = [''suryaocr''] \<and>
   map_of ocr_engines ''ocr_engines'' = Some [SuryaOcrModel] \<and>
   kind (get_options_type SuryaOcrModel) = ''suryaocr'' \<and>
   kind SuryaOcrOptions = example_ocr_model"
  by (simp add: registered_kinds_def ocr_engines_def example_ocr_model_def)

subsection \<open>Construction without the recognition backend\<close>

text \<open>
  Claim C2. The claim asks that constructing the enabled adapter without an importable
  \<^verbatim>\<open>surya\<close> fails with the dedicated error carrying the install hint. The handler
  names \<^verbatim>\<open>ImportOcrError\<close>, which the module never binds: the construction fails
  with \<^verbatim>\<open>NameError\<close>, and no error carrying the hint is built.
\<close>

theorem init_without_surya_raises_NameError:
  "init \<lparr>cache_dir_creatable = True, surya = None\<rparr> True = Inl (NameError ''ImportOcrError'') \<and>
   init \<lparr>cache_dir_creatable = True, surya = None\<rparr> True \<noteq>
     Inl (Raised ''ImportOcrError'' install_hint)"
  by (simp add: init_def raise_named_def module_globals_def)

subsection \<open>Pass-through\<close>

text \<open>
  Claim C5. A disabled adapter yields exactly the pages of its input, in order and
  unmodified, raises nothing and leaves no trace (no region selection, no recognition
  call, no warning).
\<close>

theorem disabled_pass_through:
  assumes "\<not> enabled self"
  shows "yielded (call self h page_batch tr) = page_batch \<and>
         raised (call self h page_batch tr) = None \<and>
         final (call self h page_batch tr) = tr"
  using assms by (simp add: call_def)

theorem disabled_pass_through_witness:
  "\<not> enabled ((sample_model sample_predictor)\<lparr>enabled := False\<rparr>) \<and>
   yielded (call ((sample_model sample_predictor)\<lparr>enabled := False\<rparr>) sample_host
              [sample_page (Some sample_backend), sample_page None] no_trace) =
     [sample_page (Some sample_backend), sample_page None] \<and>
   raised (call ((sample_model sample_predictor)\<lparr>enabled := False\<rparr>) sample_host
              [sample_page (Some sample_backend), sample_page None] no_trace) = None \<and>
   final (call ((sample_model sample_predictor)\<lparr>enabled := False\<rparr>) sample_host
              [sample_page (Some sample_backend), sample_page None] no_trace) = no_trace"
  using disabled_pass_through [of "(sample_model sample_predictor)\<lparr>enabled := False\<rparr>"
      sample_host "[sample_page (Some sample_backend), sample_page None]" no_trace]
  by (simp add: sample_model_def)

text \<open>
  Claim C6. The enabled adapter yields a page whose backend is absent or invalid as it
  is, and then does with the remaining pages, from the same trace, what it does with
  them alone: the page causes no region selection, no recognition call, no warning and
  no exception.
\<close>

theorem invalid_source_pass_through:
  assumes "enabled self"
    and "backend pg = None \<or> (\<exists>pb. backend pg = Some pb \<and> \<not> is_valid pb)"
  shows "call self h (pg # pages) tr = yield pg (call self h pages tr)"
  using assms by (auto simp: call_def)

theorem invalid_source_pass_through_witness:
  "enabled (sample_model sample_predictor) \<and>
   (backend (sample_page (Some (sample_backend\<lparr>is_valid := False\<rparr>))) = None \<or>
    (\<exists>pb. backend (sample_page (Some (sample_backend\<lparr>is_valid := False\<rparr>))) = Some pb \<and>
          \<not> is_valid pb)) \<and>
   call (sample_model sample_predictor) sample_host
     [sample_page (Some (sample_backend\<lparr>is_valid := False\<rparr>))] no_trace =
   \<lparr>yielded = [sample_page (Some (sample_backend\<lparr>is_valid := False\<rparr>))], raised = None,
    final = no_trace\<rparr>"
  using invalid_source_pass_through [of "sample_model sample_predictor"
      "sample_page (Some (sample_backend\<lparr>is_valid := False\<rparr>))" sample_host "[]" no_trace]
  by (simp add: sample_model_def sample_page_def sample_backend_def call_def yield_def)

subsection \<open>Zero-area regions\<close>

lemma area_zero_iff: "area rect = 0 \<longleftrightarrow> box_l rect = box_r rect \<or> box_t rect = box_b rect"
  by (auto simp: area_def)

text \<open>
  Claim C4. A region of area zero leaves the page's region loop as it is without it:
  the same cells, the same trace (so no recognition call and no warning for it) and
  the same outcome. When the predictor exists, the recognition calls of the page are
  exactly one single-image batch for each region of non-zero area.
\<close>

theorem zero_area_skip:
  assumes "area rect = 0"
  shows "ocr_rects_loop self pb (pre @ rect # post) all_cells tr =
           ocr_rects_loop self pb (pre @ post) all_cells tr \<and>
         (\<forall>rp. recognition_predictor self = Some rp \<longrightarrow>
            calls (snd (ocr_rects_loop self pb (pre @ rect # post) all_cells tr)) =
              calls tr @ map (\<lambda>r. [get_page_image pb (scale self) r])
                             (filter (\<lambda>r. area r \<noteq> 0) (pre @ post)))"
proof -
  have skip: "ocr_rects_loop self pb (pre @ rect # post) all_cells tr =
           ocr_rects_loop self pb (pre @ post) all_cells tr"
    using assms by (rule ocr_rects_loop_skip)
  have "calls (snd (ocr_rects_loop self pb (pre @ post) all_cells tr)) =
              calls tr @ map (\<lambda>r. [get_page_image pb (scale self) r])
                             (filter (\<lambda>r. area r \<noteq> 0) (pre @ post))"
    if "recognition_predictor self = Some rp" for rp
    using that by (simp add: ocr_rects_loop_Some calls_of_def processed_def crop_def)
  with skip show ?thesis by simp
qed

theorem zero_area_skip_witness:
  "area (box 5 5 5 8) = 0 \<and>
   ocr_rects_loop (sample_model sample_predictor) sample_backend
     [box 50 100 90 150, box 5 5 5 8, box 60 0 100 40] [] no_trace =
   ocr_rects_loop (sample_model sample_predictor) sample_backend
     [box 50 100 90 150, box 60 0 100 40] [] no_trace \<and>
   calls (snd (ocr_rects_loop (sample_model sample_predictor) sample_backend
     [box 50 100 90 150, box 5 5 5 8, box 60 0 100 40] [] no_trace)) =
   [[(3, box 50 100 90 150)], [(3, box 60 0 100 40)]]"
proof -
  have z: "area (box 5 5 5 8) = 0"
    by (simp add: area_def box_def)
  have nz: "area (box 50 100 90 150) \<noteq> 0" "area (box 60 0 100 40) \<noteq> 0"
    by (simp_all add: area_def box_def)
  show ?thesis
    using z nz zero_area_skip [OF z, of "sample_model sample_predictor" sample_backend
        "[box 50 100 90 150]" "[box 60 0 100 40]" "[]" no_trace]
    by (auto simp del: ocr_rects_loop.simps simp add: sample_model_def sample_backend_def no_trace_def)
qed

subsection \<open>Empty recognition results\<close>

lemma cells_of_append:
  "cells_of self pb rp (xs @ ys) = cells_of self pb rp xs @ cells_of self pb rp ys"
  by (simp add: cells_of_def processed_def)

lemma warnings_of_append:
  "warnings_of self pb rp (xs @ ys) = warnings_of self pb rp xs @ warnings_of self pb rp ys"
  by (simp add: warnings_of_def processed_def)

lemma calls_of_append:
  "calls_of self pb (xs @ ys) = calls_of self pb xs @ calls_of self pb ys"
  by (simp add: calls_of_def processed_def)

lemma flatten_result_no_lines:
  assumes "\<forall>pred\<in>set preds. text_lines pred = []"
  shows "flatten_result preds = []"
  using assms by (simp add: flatten_result_def)

text \<open>
  Claim C7. When the predictor returns the empty list for a region of non-zero area,
  the loop raises nothing, the cells of the page are those of the other regions (what
  the loop gives without that region), and the region adds exactly one warning. With
  the predictor present no page of a stream ends the generator with an exception.
\<close>

theorem empty_result_resilience:
  assumes "recognition_predictor self = Some rp"
    and "area rect \<noteq> 0"
    and "rp [get_page_image pb (scale self) rect] = []"
  shows "fst (ocr_rects_loop self pb (pre @ rect # post) all_cells tr) =
           Inr (all_cells @ cells_of self pb rp pre @ cells_of self pb rp post) \<and>
         fst (ocr_rects_loop self pb (pre @ rect # post) all_cells tr) =
           fst (ocr_rects_loop self pb (pre @ post) all_cells tr) \<and>
         warnings (snd (ocr_rects_loop self pb (pre @ rect # post) all_cells tr)) =
           warnings tr @ warnings_of self pb rp pre @ [empty_warning] @
           warnings_of self pb rp post \<and>
         length (warnings (snd (ocr_rects_loop self pb (pre @ rect # post) all_cells tr))) =
           Suc (length (warnings (snd (ocr_rects_loop self pb (pre @ post) all_cells tr)))) \<and>
         raised (call self h page_batch tr) = None"
proof -
  have c: "cells_of self pb rp [rect] = []"
    using assms(2,3)
    by (simp add: cells_of_def processed_def triples_def crop_def flatten_result_def
        make_cells_def)
  have w: "warnings_of self pb rp [rect] = [empty_warning]"
    using assms(2,3) by (simp add: warnings_of_def processed_def crop_def)
  have c': "cells_of self pb rp (pre @ rect # post) =
            cells_of self pb rp pre @ cells_of self pb rp post"
    using cells_of_append [of self pb rp pre "[rect] @ post"]
      cells_of_append [of self pb rp "[rect]" post] c by simp
  have w': "warnings_of self pb rp (pre @ rect # post) =
            warnings_of self pb rp pre @ [empty_warning] @ warnings_of self pb rp post"
    using warnings_of_append [of self pb rp pre "[rect] @ post"]
      warnings_of_append [of self pb rp "[rect]" post] w by simp
  show ?thesis
    using assms(1) c' w'
    by (simp add: ocr_rects_loop_Some pages_loop_Some call_def cells_of_append
        warnings_of_append)
qed

theorem empty_result_resilience_witness:
  "recognition_predictor (sample_model sample_predictor) = Some sample_predictor \<and>
   area (box 0 0 10 10) \<noteq> 0 \<and>
   sample_predictor [get_page_image sample_backend (scale (sample_model sample_predictor))
                       (box 0 0 10 10)] = [] \<and>
   map cell_rect (projr (fst (ocr_rects_loop (sample_model sample_predictor) sample_backend
     [box 50 100 90 150, box 0 0 10 10, box 60 0 100 40] [] no_trace))) =
     [box 60 120 80 140, box 70 20 90 40] \<and>
   warnings (snd (ocr_rects_loop (sample_model sample_predictor) sample_backend
     [box 50 100 90 150, box 0 0 10 10, box 60 0 100 40] [] no_trace)) = [empty_warning] \<and>
   raised (call (sample_model sample_predictor) sample_host
     [sample_page (Some sample_backend)] no_trace) = None"
proof -
  have m: "recognition_predictor (sample_model sample_predictor) = Some sample_predictor"
    by (simp add: sample_model_def)
  have a: "area (box 0 0 10 10) \<noteq> 0"
    by (simp add: area_def box_def)
  have e: "sample_predictor [get_page_image sample_backend
             (scale (sample_model sample_predictor)) (box 0 0 10 10)] = []"
    by (simp add: sample_predictor_def sample_backend_def box_def)
  have c1: "map cell_rect (cells_of (sample_model sample_predictor) sample_backend
              sample_predictor [box 50 100 90 150]) = [box 60 120 80 140]"
    by (simp add: cells_of_def processed_def area_def box_def triples_def crop_def
        sample_backend_def sample_model_def sample_predictor_def flatten_result_def
        sample_line_def make_cells_def)
  have c2: "map cell_rect (cells_of (sample_model sample_predictor) sample_backend
              sample_predictor [box 60 0 100 40]) = [box 70 20 90 40]"
    by (simp add: cells_of_def processed_def area_def box_def triples_def crop_def
        sample_backend_def sample_model_def sample_predictor_def flatten_result_def
        sample_line_def make_cells_def)
  have w1: "warnings_of (sample_model sample_predictor) sample_backend
              sample_predictor [box 50 100 90 150] = []"
    by (simp add: warnings_of_def processed_def area_def box_def crop_def
        sample_backend_def sample_model_def sample_predictor_def)
  have w2: "warnings_of (sample_model sample_predictor) sample_backend
              sample_predictor [box 60 0 100 40] = []"
    by (simp add: warnings_of_def processed_def area_def box_def crop_def
        sample_backend_def sample_model_def sample_predictor_def)
  have t: "warnings (no_trace :: (int \<times> bounding_box) trace) = []"
    by (simp add: no_trace_def)
  show ?thesis
    using m a e c1 c2 w1 w2 t
      empty_result_resilience [OF m a e, of "[box 50 100 90 150]" "[box 60 0 100 40]" "[]"
        no_trace sample_host "[sample_page (Some sample_backend)]"]
    by (simp del: ocr_rects_loop.simps pages_loop.simps)
qed



text \<open>
  Claim C10. When the predictor returns a non-empty list of results none of which has
  a text line, the region adds no cell and no warning: cells and warnings are those of
  the loop without the region. For a single region of non-zero area the warning is
  logged exactly when the list of results is empty.
\<close>

theorem no_text_lines_no_warning:
  assumes "recognition_predictor self = Some rp"
    and "area rect \<noteq> 0"
    and "rp [get_page_image pb (scale self) rect] \<noteq> []"
    and "\<forall>pred\<in>set (rp [get_page_image pb (scale self) rect]). text_lines pred = []"
  shows "fst (ocr_rects_loop self pb (pre @ rect # post) all_cells tr) =
           Inr (all_cells @ cells_of self pb rp pre @ cells_of self pb rp post) \<and>
         fst (ocr_rects_loop self pb (pre @ rect # post) all_cells tr) =
           fst (ocr_rects_loop self pb (pre @ post) all_cells tr) \<and>
         warnings (snd (ocr_rects_loop self pb (pre @ rect # post) all_cells tr)) =
           warnings (snd (ocr_rects_loop self pb (pre @ post) all_cells tr)) \<and>
         (\<forall>rect'. area rect' \<noteq> 0 \<longrightarrow>
            (warnings (snd (ocr_rects_loop self pb [rect'] all_cells tr)) =
               warnings tr @ [empty_warning]) =
            (rp [get_page_image pb (scale self) rect'] = []) \<and>
            (warnings (snd (ocr_rects_loop self pb [rect'] all_cells tr)) = warnings tr) =
            (rp [get_page_image pb (scale self) rect'] \<noteq> []))"
proof -
  have c: "cells_of self pb rp [rect] = []"
    using assms(2,4)
    by (simp add: cells_of_def processed_def triples_def crop_def flatten_result_no_lines
        make_cells_def)
  have w: "warnings_of self pb rp [rect] = []"
    using assms(2,3) by (simp add: warnings_of_def processed_def crop_def)
  have c': "cells_of self pb rp (pre @ rect # post) =
            cells_of self pb rp pre @ cells_of self pb rp post"
    using cells_of_append [of self pb rp pre "[rect] @ post"]
      cells_of_append [of self pb rp "[rect]" post] c by simp
  have w': "warnings_of self pb rp (pre @ rect # post) =
            warnings_of self pb rp pre @ warnings_of self pb rp post"
    using warnings_of_append [of self pb rp pre "[rect] @ post"]
      warnings_of_append [of self pb rp "[rect]" post] w by simp
  have one: "warnings_of self pb rp [rect'] =
             (if rp [get_page_image pb (scale self) rect'] = [] then [empty_warning] else [])"
    if "area rect' \<noteq> 0" for rect'
    using that by (simp add: warnings_of_def processed_def crop_def)
  show ?thesis
    using assms(1) c' w' one
    by (simp del: ocr_rects_loop.simps
        add: ocr_rects_loop_Some cells_of_append warnings_of_append)
qed

theorem no_text_lines_no_warning_witness:
  "recognition_predictor (sample_model sample_predictor) = Some sample_predictor \<and>
   area (box 20 0 30 10) \<noteq> 0 \<and>
   sample_predictor [get_page_image sample_backend (scale (sample_model sample_predictor))
                       (box 20 0 30 10)] = [\<lparr>text_lines = []\<rparr>] \<and>
   map cell_rect (projr (fst (ocr_rects_loop (sample_model sample_predictor) sample_backend
     [box 50 100 90 150, box 20 0 30 10, box 60 0 100 40] [] no_trace))) =
     [box 60 120 80 140, box 70 20 90 40] \<and>
   warnings (snd (ocr_rects_loop (sample_model sample_predictor) sample_backend
     [box 50 100 90 150, box 20 0 30 10, box 60 0 100 40] [] no_trace)) =
   warnings (snd (ocr_rects_loop (sample_model sample_predictor) sample_backend
     [box 50 100 90 150, box 60 0 100 40] [] no_trace)) \<and>
   warnings (snd (ocr_rects_loop (sample_model sample_predictor) sample_backend
     [box 20 0 30 10] [] no_trace)) = []"
proof -
  have m: "recognition_predictor (sample_model sample_predictor) = Some sample_predictor"
    by (simp add: sample_model_def)
  have a: "area (box 20 0 30 10) \<noteq> 0"
    by (simp add: area_def box_def)
  have e: "sample_predictor [get_page_image sample_backend
             (scale (sample_model sample_predictor)) (box 20 0 30 10)] = [\<lparr>text_lines = []\<rparr>]"
    by (simp add: sample_predictor_def sample_backend_def box_def)
  have ne: "sample_predictor [get_page_image sample_backend
             (scale (sample_model sample_predictor)) (box 20 0 30 10)] \<noteq> []"
    by (simp add: e)
  have nl: "\<forall>pred\<in>set (sample_predictor [get_page_image sample_backend
             (scale (sample_model sample_predictor)) (box 20 0 30 10)]). text_lines pred = []"
    by (simp add: e)
  have c1: "map cell_rect (cells_of (sample_model sample_predictor) sample_backend
              sample_predictor [box 50 100 90 150]) = [box 60 120 80 140]"
    by (simp add: cells_of_def processed_def area_def box_def triples_def crop_def
        sample_backend_def sample_model_def sample_predictor_def flatten_result_def
        sample_line_def make_cells_def)
  have c2: "map cell_rect (cells_of (sample_model sample_predictor) sample_backend
              sample_predictor [box 60 0 100 40]) = [box 70 20 90 40]"
    by (simp add: cells_of_def processed_def area_def box_def triples_def crop_def
        sample_backend_def sample_model_def sample_predictor_def flatten_result_def
        sample_line_def make_cells_def)
  have t: "warnings (no_trace :: (int \<times> bounding_box) trace) = []"
    by (simp add: no_trace_def)
  note th = no_text_lines_no_warning [OF m a ne nl, of "[box 50 100 90 150]"
        "[box 60 0 100 40]" "[]" no_trace]
  from th a ne t
  have single: "warnings (snd (ocr_rects_loop (sample_model sample_predictor) sample_backend
     [box 20 0 30 10] [] no_trace)) = []"
    by (simp del: ocr_rects_loop.simps)
  show ?thesis
    using m a e c1 c2 t th single
    by (simp del: ocr_rects_loop.simps)
qed

subsection \<open>Cell indices\<close>

lemma map_index_cells_of:
  "map index (cells_of self pb rp rects) =
   concat (map (\<lambda>rect. [0..<length (triples self pb rp rect)]) (processed rects))"
  by (simp add: cells_of_def map_concat comp_def map_index_make_cells)

text \<open>
  Claim C1, as the code has it. The indices of a region's cells come from
  \<^verbatim>\<open>enumerate(result)\<close>, which starts at 0 for every region. Two regions with one
  text line each, recognised by the mock predictor of the test suite, give the indices
  0 and 0: they are neither strictly increasing nor the run 0, 1.
\<close>

theorem indices_reset_counterexample:
  "map index (projr (fst (ocr_rects_loop (sample_model MockPredictor) sample_backend
      [box 50 100 90 150, box 60 0 100 40] [] no_trace))) = [0, 0] \<and>
   map index (projr (fst (ocr_rects_loop (sample_model MockPredictor) sample_backend
      [box 50 100 90 150, box 60 0 100 40] [] no_trace))) \<noteq> [0, 1] \<and>
   \<not> sorted_wrt (<) (map index (projr (fst (ocr_rects_loop (sample_model MockPredictor)
      sample_backend [box 50 100 90 150, box 60 0 100 40] [] no_trace))))"
proof -
  have m: "recognition_predictor (sample_model MockPredictor) = Some MockPredictor"
    by (simp add: sample_model_def)
  have a: "area (box 50 100 90 150) \<noteq> 0" "area (box 60 0 100 40) \<noteq> 0"
    by (simp_all add: area_def box_def)
  have f: "length (flatten_result (MockPredictor [img])) = 1" for img :: "int \<times> bounding_box"
    by (simp add: flatten_result_def MockPredictor_def MockResult_def)
  have "map index (projr (fst (ocr_rects_loop (sample_model MockPredictor) sample_backend
      [box 50 100 90 150, box 60 0 100 40] [] no_trace))) = [0, 0]"
    using a f
    by (simp del: ocr_rects_loop.simps
        add: ocr_rects_loop_Some [OF m] map_index_cells_of processed_def triples_def)
  then show ?thesis by simp
qed

text \<open>
  Claim C1, amended. For an enabled adapter and a page with a valid backend, the cells
  handed to \<^verbatim>\<open>post_process_cells\<close> carry, region by region in the order of the
  regions of non-zero area, the indices 0 up to the number of triples of that region
  (strictly increasing and contiguous from 0 within each region, starting again at 0
  for the next).
\<close>

theorem indices_restart_per_region:
  assumes "enabled self"
    and "recognition_predictor self = Some rp"
    and "backend pg = Some pb"
    and "is_valid pb"
  shows "\<exists>cells.
           yielded (call self h [pg] tr) = [post_process_cells h cells pg] \<and>
           fst (ocr_rects_loop self pb (get_ocr_rects h pg) []
                  (tr\<lparr>selections := selections tr @ [pg]\<rparr>)) = Inr cells \<and>
           map index cells =
             concat (map (\<lambda>rect. [0..<length (flatten_result
                                               (rp [get_page_image pb (scale self) rect]))])
                         (filter (\<lambda>rect. area rect \<noteq> 0) (get_ocr_rects h pg)))"
  using assms
  by (simp add: call_def ocr_rects_loop_Some Let_def yield_def map_index_cells_of
      triples_def crop_def processed_def)

theorem indices_restart_per_region_witness:
  "enabled (sample_model MockPredictor) \<and>
   recognition_predictor (sample_model MockPredictor) = Some MockPredictor \<and>
   backend (sample_page (Some sample_backend)) = Some sample_backend \<and>
   is_valid sample_backend \<and>
   (\<exists>cells.
      yielded (call (sample_model MockPredictor) sample_host
                 [sample_page (Some sample_backend)] no_trace) =
        [post_process_cells sample_host cells (sample_page (Some sample_backend))] \<and>
      map index cells = [0, 0, 0])"
proof -
  have e: "enabled (sample_model MockPredictor)"
    and m: "recognition_predictor (sample_model MockPredictor) = Some MockPredictor"
    by (simp_all add: sample_model_def)
  have b: "backend (sample_page (Some sample_backend)) = Some sample_backend"
    by (simp add: sample_page_def)
  have v: "is_valid sample_backend"
    by (simp add: sample_backend_def)
  have r: "get_ocr_rects sample_host (sample_page (Some sample_backend)) =
           [box 50 100 90 150, box 0 0 10 10, box 60 0 100 40]"
    by (simp add: sample_host_def)
  have a: "area (box 50 100 90 150) \<noteq> 0" "area (box 0 0 10 10) \<noteq> 0"
    "area (box 60 0 100 40) \<noteq> 0"
    by (simp_all add: area_def box_def)
  have f: "length (flatten_result (MockPredictor [img])) = 1" for img :: "int \<times> bounding_box"
    by (simp add: flatten_result_def MockPredictor_def MockResult_def)
  from indices_restart_per_region [OF e m b v, of sample_host no_trace]
  obtain cells where
    "yielded (call (sample_model MockPredictor) sample_host
                 [sample_page (Some sample_backend)] no_trace) =
        [post_process_cells sample_host cells (sample_page (Some sample_backend))]"
    and "map index cells =
           concat (map (\<lambda>rect. [0..<length (flatten_result
                     (MockPredictor [get_page_image sample_backend
                        (scale (sample_model MockPredictor)) rect]))])
                 (filter (\<lambda>rect. area rect \<noteq> 0)
                    (get_ocr_rects sample_host (sample_page (Some sample_backend)))))"
    by blast
  then show ?thesis
    using e m b v r a f by auto
qed

subsection \<open>Page-space boxes\<close>

lemma cell_rect_make_cell:
  "cell_rect (make_cell sc rect (i, ((x0, y0, x1, y1), txt, conf))) =
     \<lparr>box_l = x0 / of_int sc + box_l rect, box_t = y0 / of_int sc + box_t rect,
      box_r = x1 / of_int sc + box_l rect, box_b = y1 / of_int sc + box_t rect,
      coord_origin = TOPLEFT\<rparr>"
  by simp

lemma map_cell_rect_make_cells:
  "map cell_rect (make_cells sc rect result) =
   map (\<lambda>((x0, y0, x1, y1), txt, conf).
          \<lparr>box_l = x0 / of_int sc + box_l rect, box_t = y0 / of_int sc + box_t rect,
           box_r = x1 / of_int sc + box_l rect, box_b = y1 / of_int sc + box_t rect,
           coord_origin = TOPLEFT\<rparr>) result"
proof -
  have "cell_rect (make_cell sc rect p) =
        (\<lambda>((x0, y0, x1, y1), txt, conf).
          \<lparr>box_l = x0 / of_int sc + box_l rect, box_t = y0 / of_int sc + box_t rect,
           box_r = x1 / of_int sc + box_l rect, box_b = y1 / of_int sc + box_t rect,
           coord_origin = TOPLEFT\<rparr>) (snd p)" for p
    by (cases "(sc, rect, p)" rule: make_cell.cases) auto
  then have "map cell_rect (make_cells sc rect result) =
        map ((\<lambda>((x0, y0, x1, y1), txt, conf).
          \<lparr>box_l = x0 / of_int sc + box_l rect, box_t = y0 / of_int sc + box_t rect,
           box_r = x1 / of_int sc + box_l rect, box_b = y1 / of_int sc + box_t rect,
           coord_origin = TOPLEFT\<rparr>) \<circ> snd) (enumerate 0 result)"
    by (simp add: make_cells_def)
  also have "\<dots> = map (\<lambda>((x0, y0, x1, y1), txt, conf).
          \<lparr>box_l = x0 / of_int sc + box_l rect, box_t = y0 / of_int sc + box_t rect,
           box_r = x1 / of_int sc + box_l rect, box_b = y1 / of_int sc + box_t rect,
           coord_origin = TOPLEFT\<rparr>) (map snd (enumerate 0 result))"
    by (simp only: map_map)
  finally show ?thesis by simp
qed

text \<open>
  Claim C3. For an adapter built by the constructor, each processed region is rendered
  at scale 3, and the boxes of the page's cells are, region by region and triple by
  triple, \<open>(x0 / 3 + left, y0 / 3 + top, x1 / 3 + left, y1 / 3 + top)\<close> with
  top-left origin. For a region with origin (50, 100) the local box (30, 60, 90, 120)
  gives (60, 120, 80, 140).
\<close>

theorem page_space_boxes:
  assumes "init env True = Inr self"
  shows "cell_rect (make_cell (scale self)
                      \<lparr>box_l = 50, box_t = 100, box_r = x, box_b = y, coord_origin = TOPLEFT\<rparr>
                      (i, ((30, 60, 90, 120), txt, conf))) =
           \<lparr>box_l = 60, box_t = 120, box_r = 80, box_b = 140, coord_origin = TOPLEFT\<rparr> \<and>
         (\<exists>rp cells.
           surya env = Some rp \<and>
           calls (snd (ocr_rects_loop self pb rects [] tr)) =
             calls tr @ map (\<lambda>rect. [get_page_image pb 3 rect])
                            (filter (\<lambda>rect. area rect \<noteq> 0) rects) \<and>
           fst (ocr_rects_loop self pb rects [] tr) = Inr cells \<and>
           map cell_rect cells =
             concat (map (\<lambda>rect.
                       map (\<lambda>((x0, y0, x1, y1), txt, conf).
                              \<lparr>box_l = x0 / 3 + box_l rect, box_t = y0 / 3 + box_t rect,
                               box_r = x1 / 3 + box_l rect, box_b = y1 / 3 + box_t rect,
                               coord_origin = TOPLEFT\<rparr>)
                           (flatten_result (rp [get_page_image pb 3 rect])))
                     (filter (\<lambda>rect. area rect \<noteq> 0) rects)))"
proof -
  from init_Inr [OF assms] obtain rp where
    rp: "surya env = Some rp" "recognition_predictor self = Some rp" and sc: "scale self = 3"
    by auto
  have "map cell_rect (cells_of self pb rp rects) =
             concat (map (\<lambda>rect.
                       map (\<lambda>((x0, y0, x1, y1), txt, conf).
                              \<lparr>box_l = x0 / 3 + box_l rect, box_t = y0 / 3 + box_t rect,
                               box_r = x1 / 3 + box_l rect, box_b = y1 / 3 + box_t rect,
                               coord_origin = TOPLEFT\<rparr>)
                           (flatten_result (rp [get_page_image pb 3 rect])))
                     (filter (\<lambda>rect. area rect \<noteq> 0) rects))"
    by (simp add: cells_of_def map_concat comp_def map_cell_rect_make_cells sc triples_def
        crop_def processed_def)
  with rp sc show ?thesis
    by (simp add: ocr_rects_loop_Some calls_of_def crop_def processed_def)
qed

theorem page_space_boxes_witness:
  "init sample_env True = Inr (sample_model sample_predictor) \<and>
   (\<exists>cells.
      calls (snd (ocr_rects_loop (sample_model sample_predictor) sample_backend
                    [box 50 100 90 150] [] no_trace)) = [[(3, box 50 100 90 150)]] \<and>
      fst (ocr_rects_loop (sample_model sample_predictor) sample_backend
             [box 50 100 90 150] [] no_trace) = Inr cells \<and>
      map cell_rect cells = [box 60 120 80 140])"
proof -
  have i: "init sample_env True = Inr (sample_model sample_predictor)"
    by (simp add: init_def sample_env_def sample_model_def)
  have s: "surya sample_env = Some sample_predictor"
    by (simp add: sample_env_def)
  have a: "area (box 50 100 90 150) \<noteq> 0"
    by (simp add: area_def box_def)
  have g: "get_page_image sample_backend 3 (box 50 100 90 150) = (3, box 50 100 90 150)"
    by (simp add: sample_backend_def)
  have f: "flatten_result (sample_predictor [(3, box 50 100 90 150)]) =
           [((30, 60, 90, 120), ''line'', 9 / 10)]"
    by (simp add: flatten_result_def sample_predictor_def box_def sample_line_def)
  have t: "calls (no_trace :: (int \<times> bounding_box) trace) = []"
    by (simp add: no_trace_def)
  from page_space_boxes [OF i, where pb = sample_backend and rects = "[box 50 100 90 150]"
      and tr = no_trace]
  show ?thesis
    using i s a g f t by (auto simp del: ocr_rects_loop.simps simp add: box_def)
qed

lemma make_cell_within_page:
  assumes "within_page W H rect"
    and "within_crop 3 rect bb"
  shows "within_page W H (cell_rect (make_cell 3 rect (i, (bb, txt, conf))))"
proof -
  obtain x0 y0 x1 y1 where bb: "bb = (x0, y0, x1, y1)"
    by (cases bb) auto
  have x: "0 \<le> x / 3 + box_l rect \<and> x / 3 + box_l rect \<le> W"
    if "0 \<le> x" "x \<le> 3 * (box_r rect - box_l rect)" for x
    using that assms(1) by (simp add: within_page_def)
  have y: "0 \<le> y / 3 + box_t rect \<and> y / 3 + box_t rect \<le> H"
    if "0 \<le> y" "y \<le> 3 * (box_b rect - box_t rect)" for y
    using that assms(1) by (simp add: within_page_def)
  from assms(2) x [of x0] x [of x1] y [of y0] y [of y1] show ?thesis
    by (simp add: bb within_page_def)
qed

lemma in_cells_of:
  assumes "c \<in> set (cells_of self pb rp rects)"
  shows "\<exists>rect\<in>set rects. area rect \<noteq> 0 \<and>
           (\<exists>pred\<in>set (rp [get_page_image pb (scale self) rect]).
              \<exists>tl\<in>set (text_lines pred).
                \<exists>i. c = make_cell (scale self) rect (i, (bbox tl, tl_text tl, tl_confidence tl)))"
proof -
  from assms obtain rect where r: "rect \<in> set rects" "area rect \<noteq> 0"
    and c: "c \<in> set (make_cells (scale self) rect (triples self pb rp rect))"
    by (auto simp: cells_of_def processed_def)
  from c obtain p where p: "p \<in> set (enumerate 0 (triples self pb rp rect))"
    and cp: "c = make_cell (scale self) rect p"
    by (auto simp: make_cells_def)
  from p have "snd p \<in> set (triples self pb rp rect)"
    by (metis image_eqI list.set_map map_snd_enumerate)
  then obtain pred tl where "pred \<in> set (rp [get_page_image pb (scale self) rect])"
    "tl \<in> set (text_lines pred)" "snd p = (bbox tl, tl_text tl, tl_confidence tl)"
    by (auto simp: triples_def crop_def flatten_result_def)
  with r cp show ?thesis
    by (metis prod.collapse)
qed

text \<open>
  Claim C9. For an adapter built by the constructor: if every processed region lies
  within the page of width \<open>W\<close> and height \<open>H\<close> and every text line returned for it has
  its local box within the rendered crop, then every cell accumulated for the page has
  its box within the page.
\<close>

theorem cells_within_page:
  assumes "init env True = Inr self"
    and "surya env = Some rp"
    and "\<forall>rect\<in>set rects. area rect \<noteq> 0 \<longrightarrow> within_page W H rect"
    and "\<forall>rect\<in>set rects. area rect \<noteq> 0 \<longrightarrow>
           (\<forall>pred\<in>set (rp [get_page_image pb 3 rect]).
              \<forall>tl\<in>set (text_lines pred). within_crop 3 rect (bbox tl))"
  shows "\<exists>cells. fst (ocr_rects_loop self pb rects [] tr) = Inr cells \<and>
           (\<forall>c\<in>set cells. within_page W H (cell_rect c))"
proof -
  from init_Inr [OF assms(1)] assms(2)
  have rp: "recognition_predictor self = Some rp" and sc: "scale self = 3"
    by auto
  have "within_page W H (cell_rect c)" if "c \<in> set (cells_of self pb rp rects)" for c
  proof -
    from in_cells_of [OF that] obtain rect pred tl i where
      "rect \<in> set rects" "area rect \<noteq> 0"
      "pred \<in> set (rp [get_page_image pb 3 rect])" "tl \<in> set (text_lines pred)"
      "c = make_cell 3 rect (i, (bbox tl, tl_text tl, tl_confidence tl))"
      unfolding sc by blast
    with assms(3,4) show ?thesis
      by (simp add: make_cell_within_page del: make_cell.simps)
  qed
  with rp show ?thesis
    by (simp add: ocr_rects_loop_Some)
qed

theorem cells_within_page_witness:
  "init sample_env True = Inr (sample_model sample_predictor) \<and>
   surya sample_env = Some sample_predictor \<and>
   within_page 200 200 (box 50 100 90 150) \<and>
   within_crop 3 (box 50 100 90 150) (30, 60, 90, 120) \<and>
   (\<exists>cells. fst (ocr_rects_loop (sample_model sample_predictor) sample_backend
               [box 50 100 90 150] [] no_trace) = Inr cells \<and>
            (\<forall>c\<in>set cells. within_page 200 200 (cell_rect c)))"
proof -
  have i: "init sample_env True = Inr (sample_model sample_predictor)"
    by (simp add: init_def sample_env_def sample_model_def)
  have s: "surya sample_env = Some sample_predictor"
    by (simp add: sample_env_def)
  have wp: "within_page 200 200 (box 50 100 90 150)"
    by (simp add: within_page_def box_def)
  have wc: "within_crop 3 (box 50 100 90 150) (30, 60, 90, 120)"
    by (simp add: box_def)
  have h3: "\<forall>rect\<in>set [box 50 100 90 150]. area rect \<noteq> 0 \<longrightarrow> within_page 200 200 rect"
    using wp by simp
  have h4: "\<forall>rect\<in>set [box 50 100 90 150]. area rect \<noteq> 0 \<longrightarrow>
           (\<forall>pred\<in>set (sample_predictor [get_page_image sample_backend 3 rect]).
              \<forall>tl\<in>set (text_lines pred). within_crop 3 rect (bbox tl))"
    using wc by (simp add: sample_predictor_def sample_backend_def box_def sample_line_def)
  from cells_within_page [OF i s h3 h4, of no_trace] i s wp wc
  show ?thesis by blast
qed

end
